theory Spec2Isabelle
  imports Complex_Main "HOL-Library.AList" "HOL-Library.Multiset"
begin

section \<open>JavaScript values\<close>

text \<open>
  A request body is parsed JSON. Objects are association lists of their own properties
  (the keys of a parsed object are distinct); a finite JSON number is represented by the
  real it denotes. \<open>undefined\<close> is \<open>None\<close> of \<open>json option\<close>.
\<close>

datatype json =
    JNull
  | JBool bool
  | JNum real
  | JStr string
  | JArr "json list"
  | JObj "(string \<times> json) list"

text \<open>ToBoolean, as \<open>!v\<close>, \<open>v || d\<close> and \<open>v && w\<close> use it.\<close>

fun truthy :: "json \<Rightarrow> bool" where
  "truthy JNull = False"
| "truthy (JBool b) = b"
| "truthy (JNum x) = (x \<noteq> 0)"
| "truthy (JStr s) = (s \<noteq> [])"
| "truthy (JArr xs) = True"
| "truthy (JObj kvs) = True"

definition truthy_opt :: "json option \<Rightarrow> bool" where
  "truthy_opt v = (case v of None \<Rightarrow> False | Some j \<Rightarrow> truthy j)"

text \<open>
  \<open>v.key\<close> for the keys the server reads (none of them is a property of a prototype):
  the own property of an object, \<open>undefined\<close> on a primitive or an array.
\<close>

fun getProp :: "json \<Rightarrow> string \<Rightarrow> json option" where
  "getProp (JObj kvs) k = map_of kvs k"
| "getProp v k = None"

text \<open>\<open>v?.key || d\<close>: optional chaining on a value that may be null, then the default.\<close>

definition propOr :: "json \<Rightarrow> string \<Rightarrow> json \<Rightarrow> json" where
  "propOr v k d = (case getProp v k of None \<Rightarrow> d | Some x \<Rightarrow> if truthy x then x else d)"

text \<open>
  The result of \<open>Number(v)\<close>. On a number, null and a boolean it is computed; the
  conversion of a string, an array or an object (ECMAScript StringToNumber after
  ToPrimitive) is kept as the uninterpreted value \<open>Coerced v\<close>.
\<close>

datatype jsnum = Finite real | Coerced json

fun Number :: "json \<Rightarrow> jsnum" where
  "Number (JNum x) = Finite x"
| "Number JNull = Finite 0"
| "Number (JBool b) = Finite (if b then 1 else 0)"
| "Number v = Coerced v"

section \<open>shared/schema.ts\<close>

record Location =
  lat :: jsnum
  lng :: jsnum

record ScreenInfo =
  width :: json
  height :: json
  orientation :: json

text \<open>
  A row of \<open>diaryEntries\<close>. \<open>createdAt\<close> holds the instant in milliseconds since the
  epoch: the source stores \<open>now.toISOString()\<close> and reads it back only through
  \<open>new Date(createdAt).getTime()\<close>, which returns that instant.
\<close>

record DiaryEntry =
  id' :: int
  userId :: string
  caption :: string
  imageUrl :: string
  location :: "Location option"
  screenInfo :: ScreenInfo
  createdAt :: int
  shareId :: "string option"
  isShared :: bool

text \<open>
  The data \<open>insertEntrySchema.safeParse\<close> returns on success. \<open>userId\<close>, \<open>caption\<close> and
  \<open>imageUrl\<close> are not-null text columns without a default, so they are strings;
  \<open>screenInfo\<close> is a not-null jsonb column (any JSON value); \<open>location\<close> is a nullable
  jsonb column (any JSON value, null or absent); \<open>shareId\<close> is nullable text;
  \<open>isShared\<close> has a default, so it is an optional boolean; \<open>captionText\<close> is an
  optional string.
\<close>

record InsertDiaryEntry =
  userId_in :: string
  caption_in :: string
  imageUrl_in :: string
  location_in :: "json option"
  screenInfo_in :: json
  shareId_in :: "json option"
  isShared_in :: "bool option"
  captionText_in :: "string option"

section \<open>server/storage.ts\<close>

text \<open>
  \<open>MemStorage\<close>: the \<open>Map\<close> from id to entry, in insertion order, and the id counter.
  \<open>Map.set\<close> on a key that is present replaces the value in place and appends otherwise;
  \<open>Map.delete\<close> removes the key. Ids are integers; the counter is taken without the
  rounding of a double above \<open>2^53\<close>.
\<close>

record MemStorage =
  entries :: "(int \<times> DiaryEntry) list"
  currentId :: int

definition constructor :: MemStorage where
  "constructor = \<lparr>entries = [], currentId = 1\<rparr>"

definition Map_get :: "(int \<times> DiaryEntry) list \<Rightarrow> int \<Rightarrow> DiaryEntry option" where
  "Map_get m k = map_of m k"

definition Map_set :: "(int \<times> DiaryEntry) list \<Rightarrow> int \<Rightarrow> DiaryEntry \<Rightarrow> (int \<times> DiaryEntry) list" where
  "Map_set m k v = AList.update k v m"

definition Map_delete :: "(int \<times> DiaryEntry) list \<Rightarrow> int \<Rightarrow> (int \<times> DiaryEntry) list" where
  "Map_delete m k = AList.delete k m"

definition Map_values :: "(int \<times> DiaryEntry) list \<Rightarrow> DiaryEntry list" where
  "Map_values m = map snd m"

text \<open>
  \<open>Array.prototype.sort\<close> with a comparator: a stable sort (ECMAScript 2019), here by
  insertion. \<open>x\<close> goes before the first element it does not compare greater than.
\<close>

fun insert_cmp :: "('a \<Rightarrow> 'a \<Rightarrow> int) \<Rightarrow> 'a \<Rightarrow> 'a list \<Rightarrow> 'a list" where
  "insert_cmp c x [] = [x]"
| "insert_cmp c x (y # ys) = (if c x y \<le> 0 then x # y # ys else y # insert_cmp c x ys)"

definition Array_sort :: "('a \<Rightarrow> 'a \<Rightarrow> int) \<Rightarrow> 'a list \<Rightarrow> 'a list" where
  "Array_sort c xs = foldr (insert_cmp c) xs []"

definition byCreatedAtDesc :: "DiaryEntry \<Rightarrow> DiaryEntry \<Rightarrow> int" where
  "byCreatedAtDesc a b = createdAt b - createdAt a"

definition getEntriesByUserId :: "MemStorage \<Rightarrow> string \<Rightarrow> DiaryEntry list" where
  "getEntriesByUserId st u =
     Array_sort byCreatedAtDesc (filter (\<lambda>entry. userId entry = u) (Map_values (entries st)))"

definition getEntry :: "MemStorage \<Rightarrow> int \<Rightarrow> DiaryEntry option" where
  "getEntry st k = Map_get (entries st) k"

definition getEntryByShareId :: "MemStorage \<Rightarrow> string \<Rightarrow> DiaryEntry option" where
  "getEntryByShareId st token =
     List.find (\<lambda>entry. shareId entry = Some token \<and> isShared entry) (Map_values (entries st))"

text \<open>\<open>shareId || entry.shareId\<close> on an optional string argument and a nullable string.\<close>

definition orShareId :: "string option \<Rightarrow> string option \<Rightarrow> string option" where
  "orShareId arg old = (case arg of None \<Rightarrow> old | Some s \<Rightarrow> if s = [] then old else Some s)"

definition updateEntrySharing ::
  "MemStorage \<Rightarrow> int \<Rightarrow> bool \<Rightarrow> string option \<Rightarrow> DiaryEntry option \<times> MemStorage" where
  "updateEntrySharing st k sharedFlag shareIdArg =
     (case Map_get (entries st) k of
        None \<Rightarrow> (None, st)
      | Some entry \<Rightarrow>
          let updatedEntry = entry\<lparr>isShared := sharedFlag, shareId := orShareId shareIdArg (shareId entry)\<rparr>
          in (Some updatedEntry, st\<lparr>entries := Map_set (entries st) k updatedEntry\<rparr>))"

definition placeholderCaption :: string where
  "placeholderCaption = ''My travel memory''"

definition placeholderImage :: string where
  "placeholderImage =
     ''data:image/png;base64,iVBORw0KGgoAAAANSUhEUgAAAAEAAAABCAYAAAAfFcSJAAAADUlEQVR42mP8z8BQDwAEhQGAhKmMIQAAAABJRU5ErkJggg==''"

text \<open>
  The location guard of \<open>createEntry\<close>: a truthy value of type object that has the keys
  \<open>lat\<close> and \<open>lng\<close> is converted; anything else gives null.
\<close>

definition prepareLocation :: "json option \<Rightarrow> Location option" where
  "prepareLocation loc =
     (case loc of
        Some (JObj kvs) \<Rightarrow>
          (case (map_of kvs ''lat'', map_of kvs ''lng'') of
             (Some a, Some b) \<Rightarrow> Some \<lparr>lat = Number a, lng = Number b\<rparr>
           | _ \<Rightarrow> None)
      | _ \<Rightarrow> None)"

definition prepareScreenInfo :: "json \<Rightarrow> ScreenInfo" where
  "prepareScreenInfo si =
     \<lparr>width = propOr si ''width'' (JNum 0),
      height = propOr si ''height'' (JNum 0),
      orientation = propOr si ''orientation'' (JStr ''unknown'')\<rparr>"

definition createEntry :: "MemStorage \<Rightarrow> int \<Rightarrow> InsertDiaryEntry \<Rightarrow> DiaryEntry \<times> MemStorage" where
  "createEntry st now entryData =
     (let newId = currentId st;
          newEntry = \<lparr>id' = newId,
                      userId = userId_in entryData,
                      caption = (if caption_in entryData \<noteq> [] then caption_in entryData else placeholderCaption),
                      imageUrl = (if imageUrl_in entryData \<noteq> [] then imageUrl_in entryData else placeholderImage),
                      location = prepareLocation (location_in entryData),
                      screenInfo = prepareScreenInfo (screenInfo_in entryData),
                      createdAt = now,
                      shareId = None,
                      isShared = False\<rparr>
      in (newEntry, \<lparr>entries = Map_set (entries st) newId newEntry, currentId = currentId st + 1\<rparr>))"

definition deleteEntry :: "MemStorage \<Rightarrow> int \<Rightarrow> MemStorage" where
  "deleteEntry st k = st\<lparr>entries := Map_delete (entries st) k\<rparr>"

section \<open>server/routes.ts\<close>

text \<open>
  The id parameter is a JavaScript string, a list of UTF-16 code units; \<open>units\<close> gives the
  code units of an ASCII literal.
\<close>

type_synonym jsstring = "nat list"

definition units :: "string \<Rightarrow> jsstring" where
  "units s = map of_char s"

text \<open>
  The white space \<open>parseInt\<close> skips (ECMAScript StrWhiteSpaceChar): TAB, VT, FF, ZWNBSP and
  the space separators U+0020, U+00A0, U+1680, U+2000 to U+200A, U+202F, U+205F, U+3000,
  and the line terminators LF, CR, LS, PS.
\<close>

definition isWhiteSpace :: "nat \<Rightarrow> bool" where
  "isWhiteSpace u =
     (u \<in> set [0x09, 0x0B, 0x0C, 0xFEFF, 0x20, 0xA0, 0x1680, 0x202F, 0x205F, 0x3000,
                0x0A, 0x0D, 0x2028, 0x2029] \<or>
      (0x2000 \<le> u \<and> u \<le> 0x200A))"

text \<open>The value of a digit: \<open>0\<close> to \<open>9\<close>, then the letters of either case from 10.\<close>

definition digitValue :: "nat \<Rightarrow> nat option" where
  "digitValue u =
     (if 48 \<le> u \<and> u \<le> 57 then Some (u - 48)
      else if 97 \<le> u \<and> u \<le> 122 then Some (u - 87)
      else if 65 \<le> u \<and> u \<le> 90 then Some (u - 55)
      else None)"

definition isRadixDigit :: "nat \<Rightarrow> nat \<Rightarrow> bool" where
  "isRadixDigit r u = (case digitValue u of None \<Rightarrow> False | Some d \<Rightarrow> d < r)"

definition digitsValue :: "nat \<Rightarrow> jsstring \<Rightarrow> nat" where
  "digitsValue r z = foldl (\<lambda>a u. a * r + (case digitValue u of None \<Rightarrow> 0 | Some d \<Rightarrow> d)) 0 z"

text \<open>
  The Number \<open>parseInt\<close> returns: NaN, an infinity, or a double that is an integer, held
  as that integer (\<open>-0\<close> as 0, which is also the key \<open>Map.get\<close> reads it as).
\<close>

datatype number = NaN | Num int | PosInfinity | NegInfinity

text \<open>
  The double nearest to a natural number, ties to the even significand: below \<open>2^53\<close> the
  number itself, above it the 53 leading bits rounded by the rest. From \<open>2^1024\<close> on the
  rounded value is an infinity.
\<close>

fun bitLength :: "nat \<Rightarrow> nat" where
  "bitLength n = (if n = 0 then 0 else Suc (bitLength (n div 2)))"

declare bitLength.simps [simp del]

definition roundToDouble :: "nat \<Rightarrow> nat" where
  "roundToDouble n =
     (if n < 2 ^ 53 then n
      else
        (let e = bitLength n - 53;
             q = n div 2 ^ e;
             r = n mod 2 ^ e;
             q' = (if 2 ^ (e - 1) < r \<or> (r = 2 ^ (e - 1) \<and> odd q) then q + 1 else q)
         in q' * 2 ^ e))"

definition toNumber :: "bool \<Rightarrow> nat \<Rightarrow> number" where
  "toNumber neg n =
     (let d = roundToDouble n
      in if 2 ^ 1024 \<le> d then (if neg then NegInfinity else PosInfinity)
         else Num (if neg then - int d else int d))"

text \<open>
  \<open>parseInt(s)\<close> without a radix. \<open>signedPart\<close> skips the leading white space and takes an
  optional sign; \<open>radixPart\<close> takes a \<open>0x\<close> or \<open>0X\<close> prefix, which selects radix 16 instead
  of 10; then the longest run of digits of the radix is read. No digit gives NaN; otherwise
  the result is the Number of the integer the digits denote, every digit counted (of the
  two readings ECMAScript allows beyond 20 decimal digits, the one of V8).
\<close>

definition signedPart :: "jsstring \<Rightarrow> bool \<times> jsstring" where
  "signedPart s =
     (case dropWhile isWhiteSpace s of
        [] \<Rightarrow> (False, [])
      | u # us \<Rightarrow>
          if u = 0x2D then (True, us) else if u = 0x2B then (False, us) else (False, u # us))"

definition hasHexPrefix :: "jsstring \<Rightarrow> bool" where
  "hasHexPrefix s = (take 2 s = [0x30, 0x78] \<or> take 2 s = [0x30, 0x58])"

definition radixPart :: "jsstring \<Rightarrow> nat \<times> jsstring" where
  "radixPart s = (if hasHexPrefix s then (16, drop 2 s) else (10, s))"

definition parseInt :: "jsstring \<Rightarrow> number" where
  "parseInt s =
     (case signedPart s of
        (neg, S) \<Rightarrow>
          (case radixPart S of
             (R, S') \<Rightarrow>
               let Z = takeWhile (isRadixDigit R) S'
               in if Z = [] then NaN else toNumber neg (digitsValue R Z)))"

text \<open>
  A response: the status and the JSON body. \<open>Invalid\<close> carries the paths of the zod
  issues, \<open>Shared\<close> the \<open>shareId\<close> and the \<open>shareUrl\<close>.
\<close>

datatype payload =
    Message string
  | Invalid "string list"
  | Entry DiaryEntry
  | Entries "DiaryEntry list"
  | Shared "string option" string

type_synonym response = "nat \<times> payload"

definition GET_entries :: "MemStorage \<Rightarrow> string option \<Rightarrow> response" where
  "GET_entries st userIdParam =
     (case userIdParam of
        None \<Rightarrow> (400, Message ''User ID is required'')
      | Some u \<Rightarrow>
          if u = [] then (400, Message ''User ID is required'')
          else (200, Entries (getEntriesByUserId st u)))"

text \<open>
  In the routes with an id parameter, \<open>isNaN(entryId)\<close> answers 400. No key of the Map is
  an infinity, so for an id that \<open>parseInt\<close> reads as one \<open>storage.getEntry\<close> gives
  \<open>undefined\<close>, which answers 404.
\<close>

definition GET_entry :: "MemStorage \<Rightarrow> jsstring \<Rightarrow> response" where
  "GET_entry st idParam =
     (case parseInt idParam of
        NaN \<Rightarrow> (400, Message ''Invalid entry ID'')
      | Num entryId \<Rightarrow>
          (case getEntry st entryId of
             None \<Rightarrow> (404, Message ''Entry not found'')
           | Some entry \<Rightarrow> (200, Entry entry))
      | PosInfinity \<Rightarrow> (404, Message ''Entry not found'')
      | NegInfinity \<Rightarrow> (404, Message ''Entry not found''))"

text \<open>
  \<open>insertEntrySchema.safeParse\<close>: the zod object that \<open>createInsertSchema\<close> derives from
  the table, without \<open>id\<close> and \<open>createdAt\<close>, extended by \<open>captionText\<close>. A failure lists
  the fields at fault in the order of the schema.
\<close>

definition isString :: "json option \<Rightarrow> bool" where
  "isString v = (case v of Some (JStr s) \<Rightarrow> True | _ \<Rightarrow> False)"

definition isBoolean :: "json option \<Rightarrow> bool" where
  "isBoolean v = (case v of Some (JBool b) \<Rightarrow> True | _ \<Rightarrow> False)"

fun stringOf :: "json option \<Rightarrow> string" where
  "stringOf (Some (JStr s)) = s"
| "stringOf v = []"

fun optStringOf :: "json option \<Rightarrow> string option" where
  "optStringOf (Some (JStr s)) = Some s"
| "optStringOf v = None"

fun optBoolOf :: "json option \<Rightarrow> bool option" where
  "optBoolOf (Some (JBool b)) = Some b"
| "optBoolOf v = None"

definition issue :: "string \<Rightarrow> bool \<Rightarrow> string list" where
  "issue path valid = (if valid then [] else [path])"

definition fieldIssues :: "json \<Rightarrow> string list" where
  "fieldIssues body =
     issue ''userId'' (isString (getProp body ''userId'')) @
     issue ''caption'' (isString (getProp body ''caption'')) @
     issue ''imageUrl'' (isString (getProp body ''imageUrl'')) @
     issue ''screenInfo'' (getProp body ''screenInfo'' \<noteq> None) @
     issue ''shareId''
       (getProp body ''shareId'' = None \<or> getProp body ''shareId'' = Some JNull \<or>
        isString (getProp body ''shareId'')) @
     issue ''isShared'' (getProp body ''isShared'' = None \<or> isBoolean (getProp body ''isShared'')) @
     issue ''captionText''
       (getProp body ''captionText'' = None \<or> isString (getProp body ''captionText''))"

definition safeParse :: "json \<Rightarrow> string list + InsertDiaryEntry" where
  "safeParse body =
     (case body of
        JObj kvs \<Rightarrow>
          if fieldIssues body \<noteq> [] then Inl (fieldIssues body)
          else Inr \<lparr>userId_in = stringOf (getProp body ''userId''),
                    caption_in = stringOf (getProp body ''caption''),
                    imageUrl_in = stringOf (getProp body ''imageUrl''),
                    location_in = getProp body ''location'',
                    screenInfo_in = (case getProp body ''screenInfo'' of None \<Rightarrow> JNull | Some v \<Rightarrow> v),
                    shareId_in = getProp body ''shareId'',
                    isShared_in = optBoolOf (getProp body ''isShared''),
                    captionText_in = optStringOf (getProp body ''captionText'')\<rparr>
      | _ \<Rightarrow> Inl [[]])"

definition routePlaceholderCaption :: string where
  "routePlaceholderCaption = ''My travel moment''"

text \<open>The block of \<open>POST /api/entries\<close> under the comment "Ensure we have a caption".\<close>

definition ensureCaption :: "InsertDiaryEntry \<Rightarrow> InsertDiaryEntry" where
  "ensureCaption entryData =
     (case captionText_in entryData of
        Some t \<Rightarrow>
          if caption_in entryData = [] \<and> t \<noteq> [] then entryData\<lparr>caption_in := t\<rparr>
          else if caption_in entryData = [] then entryData\<lparr>caption_in := routePlaceholderCaption\<rparr>
          else entryData
      | None \<Rightarrow>
          if caption_in entryData = [] then entryData\<lparr>caption_in := routePlaceholderCaption\<rparr>
          else entryData)"

text \<open>
  \<open>POST /api/entries\<close> at clock reading \<open>now\<close>. Reading \<open>req.body.userId\<close> of a null body
  throws, which the handler's \<open>catch\<close> turns into 500.
\<close>

definition POST_entries :: "MemStorage \<Rightarrow> int \<Rightarrow> json \<Rightarrow> response \<times> MemStorage" where
  "POST_entries st now body =
     (if body = JNull then ((500, Message ''Failed to create entry''), st)
      else if \<not> truthy_opt (getProp body ''userId'') then ((400, Message ''User ID is required''), st)
      else
        (case safeParse body of
           Inl errors \<Rightarrow> ((400, Invalid errors), st)
         | Inr entryData \<Rightarrow>
             (case createEntry st now (ensureCaption entryData) of
                (newEntry, st') \<Rightarrow> ((201, Entry newEntry), st'))))"

definition DELETE_entry :: "MemStorage \<Rightarrow> jsstring \<Rightarrow> response \<times> MemStorage" where
  "DELETE_entry st idParam =
     (case parseInt idParam of
        NaN \<Rightarrow> ((400, Message ''Invalid entry ID''), st)
      | Num entryId \<Rightarrow>
          (case getEntry st entryId of
             None \<Rightarrow> ((404, Message ''Entry not found''), st)
           | Some entry \<Rightarrow> ((200, Message ''Entry deleted successfully''), deleteEntry st entryId))
      | PosInfinity \<Rightarrow> ((404, Message ''Entry not found''), st)
      | NegInfinity \<Rightarrow> ((404, Message ''Entry not found''), st))"

text \<open>\<open>entry.shareId || uuidv4()\<close>, with \<open>uuid\<close> the token \<open>uuidv4()\<close> returns on this call.\<close>

definition shareIdOr :: "string option \<Rightarrow> string \<Rightarrow> string" where
  "shareIdOr old uuid = (case old of None \<Rightarrow> uuid | Some s \<Rightarrow> if s = [] then uuid else s)"

definition shareUrl :: "string option \<Rightarrow> string" where
  "shareUrl sid = ''/shared/'' @ (case sid of None \<Rightarrow> ''null'' | Some s \<Rightarrow> s)"

definition POST_share :: "MemStorage \<Rightarrow> string \<Rightarrow> jsstring \<Rightarrow> response \<times> MemStorage" where
  "POST_share st uuid idParam =
     (case parseInt idParam of
        NaN \<Rightarrow> ((400, Message ''Invalid entry ID''), st)
      | Num entryId \<Rightarrow>
          (case getEntry st entryId of
             None \<Rightarrow> ((404, Message ''Entry not found''), st)
           | Some entry \<Rightarrow>
               (case updateEntrySharing st entryId True (Some (shareIdOr (shareId entry) uuid)) of
                  (None, st') \<Rightarrow> ((500, Message ''Failed to update entry''), st')
                | (Some updatedEntry, st') \<Rightarrow>
                    ((200, Shared (shareId updatedEntry) (shareUrl (shareId updatedEntry))), st')))
      | PosInfinity \<Rightarrow> ((404, Message ''Entry not found''), st)
      | NegInfinity \<Rightarrow> ((404, Message ''Entry not found''), st))"

definition POST_unshare :: "MemStorage \<Rightarrow> jsstring \<Rightarrow> response \<times> MemStorage" where
  "POST_unshare st idParam =
     (case parseInt idParam of
        NaN \<Rightarrow> ((400, Message ''Invalid entry ID''), st)
      | Num entryId \<Rightarrow>
          (case getEntry st entryId of
             None \<Rightarrow> ((404, Message ''Entry not found''), st)
           | Some entry \<Rightarrow>
               (case updateEntrySharing st entryId False None of
                  (None, st') \<Rightarrow> ((500, Message ''Failed to update entry''), st')
                | (Some updatedEntry, st') \<Rightarrow>
                    ((200, Message ''Entry is no longer shared''), st')))
      | PosInfinity \<Rightarrow> ((404, Message ''Entry not found''), st)
      | NegInfinity \<Rightarrow> ((404, Message ''Entry not found''), st))"

section \<open>client/src/lib/supabase.ts\<close>

text \<open>
  What the browser makes of the file: whether \<open>FileReader\<close> reads it, the \<open>width\<close> and
  \<open>height\<close> of the loaded \<open>Image\<close> (or \<open>onerror\<close>), and whether the JPEG encoder of
  \<open>toBlob\<close> delivers.
\<close>

record ImageFile =
  readable :: bool
  decoded :: "(nat \<times> nat) option"
  encodes :: bool

datatype image_error = FailedToReadFile | FailedToLoadImage | FailedToCreateBlob

text \<open>The blob of \<open>canvas.toBlob\<close>: the canvas bitmap's size, the type and the quality.\<close>

record EncodedImage =
  pixelWidth :: nat
  pixelHeight :: nat
  mimeType :: string
  quality :: real

text \<open>
  \<open>width\<close> and \<open>height\<close> are JavaScript numbers, here the reals they approximate;
  \<open>canvas.width\<close> and \<open>canvas.height\<close> are \<open>unsigned long\<close> attributes, which keep the
  integer part (that of the double quotient is that of the real one as long as
  \<open>height * maxWidth + width\<close> stays below \<open>2^53\<close>). \<open>toBlob\<close> passes null for a bitmap
  without pixels.
\<close>

definition resizeAndCompressImage :: "ImageFile \<Rightarrow> nat \<Rightarrow> image_error + EncodedImage" where
  "resizeAndCompressImage file maxWidth =
     (if \<not> readable file then Inl FailedToReadFile
      else
        (case decoded file of
           None \<Rightarrow> Inl FailedToLoadImage
         | Some (imgWidth, imgHeight) \<Rightarrow>
             let height = (if imgWidth > maxWidth
                           then (real imgHeight * real maxWidth) / real imgWidth
                           else real imgHeight);
                 width = (if imgWidth > maxWidth then real maxWidth else real imgWidth);
                 canvasWidth = nat \<lfloor>width\<rfloor>;
                 canvasHeight = nat \<lfloor>height\<rfloor>
             in if canvasWidth = 0 \<or> canvasHeight = 0 \<or> \<not> encodes file then Inl FailedToCreateBlob
                else Inr \<lparr>pixelWidth = canvasWidth, pixelHeight = canvasHeight,
                          mimeType = ''image/jpeg'', quality = 0.7\<rparr>))"

section \<open>Sequences of calls\<close>

text \<open>
  The calls that change a \<open>MemStorage\<close>, and the repository after a sequence of them on a
  new instance.
\<close>

datatype storage_call =
    CreateEntry int InsertDiaryEntry
  | DeleteEntry int
  | UpdateEntrySharing int bool "string option"

fun call :: "MemStorage \<Rightarrow> storage_call \<Rightarrow> MemStorage" where
  "call st (CreateEntry now entryData) = snd (createEntry st now entryData)"
| "call st (DeleteEntry k) = deleteEntry st k"
| "call st (UpdateEntrySharing k sharedFlag shareIdArg) = snd (updateEntrySharing st k sharedFlag shareIdArg)"

definition run :: "storage_call list \<Rightarrow> MemStorage" where
  "run cs = foldl call constructor cs"

fun isSharingUpdate :: "storage_call \<Rightarrow> bool" where
  "isSharingUpdate (UpdateEntrySharing k sharedFlag shareIdArg) = True"
| "isSharingUpdate c = False"

text \<open>\<open>createEntry\<close> called once for each submission of a list, in order.\<close>

fun createEntries :: "MemStorage \<Rightarrow> (int \<times> InsertDiaryEntry) list \<Rightarrow> DiaryEntry list \<times> MemStorage" where
  "createEntries st [] = ([], st)"
| "createEntries st ((now, entryData) # rest) =
     (case createEntry st now entryData of
        (newEntry, st') \<Rightarrow>
          (case createEntries st' rest of (es, st'') \<Rightarrow> (newEntry # es, st'')))"

text \<open>
  The shape of a repository: the counter is at least 1, and every key is stored once, is
  the id of its entry, and lies between 1 and the counter.
\<close>

definition wellFormed :: "MemStorage \<Rightarrow> bool" where
  "wellFormed st =
     (1 \<le> currentId st \<and> distinct (map fst (entries st)) \<and>
      list_all (\<lambda>(k, e). id' e = k \<and> 1 \<le> k \<and> k < currentId st) (entries st))"

text \<open>A submission and a repository used to evaluate the operations on concrete data.\<close>

definition demoData :: "string \<Rightarrow> InsertDiaryEntry" where
  "demoData u =
     \<lparr>userId_in = u, caption_in = ''Fuji'', imageUrl_in = ''data:image/jpeg;base64,AA=='',
      location_in = Some (JObj [(''lat'', JNum 35.3606), (''lng'', JNum 138.7274)]),
      screenInfo_in = JObj [(''width'', JNum 1080), (''height'', JNum 1920),
                            (''orientation'', JStr ''Portrait'')],
      shareId_in = None, isShared_in = None, captionText_in = None\<rparr>"

definition demoEntry :: "int \<Rightarrow> string \<Rightarrow> int \<Rightarrow> string option \<Rightarrow> bool \<Rightarrow> DiaryEntry" where
  "demoEntry k u t sid sh =
     \<lparr>id' = k, userId = u, caption = ''Fuji'', imageUrl = ''data:image/jpeg;base64,AA=='',
      location = Some \<lparr>lat = Finite 35.3606, lng = Finite 138.7274\<rparr>,
      screenInfo = \<lparr>width = JNum 1080, height = JNum 1920, orientation = JStr ''Portrait''\<rparr>,
      createdAt = t, shareId = sid, isShared = sh\<rparr>"

definition demoCalls :: "storage_call list" where
  "demoCalls =
     [CreateEntry 1000 (demoData ''u1''), CreateEntry 2000 (demoData ''u2''),
      CreateEntry 2000 (demoData ''u1''), CreateEntry 2000 (demoData ''u1''),
      UpdateEntrySharing 1 True (Some ''tok-a''),
      UpdateEntrySharing 2 True (Some ''tok-b''),
      UpdateEntrySharing 2 False None]"

definition demoStorage :: MemStorage where
  "demoStorage = run demoCalls"

definition demoBody :: json where
  "demoBody =
     JObj [(''userId'', JStr ''u1''), (''caption'', JStr ''Fuji''),
           (''imageUrl'', JStr ''data:image/jpeg;base64,AA==''),
           (''location'', JObj [(''lat'', JNum 35.3606), (''lng'', JNum 138.7274)]),
           (''screenInfo'', JObj [(''width'', JNum 1080), (''height'', JNum 1920),
                                  (''orientation'', JStr ''Portrait'')]),
           (''shareId'', JStr ''mine''), (''isShared'', JBool True)]"







definition demoFile :: "nat \<Rightarrow> nat \<Rightarrow> ImageFile" where
  "demoFile w h = \<lparr>readable = True, decoded = Some (w, h), encodes = True\<rparr>"

section \<open>The Map and the repository\<close>

lemma Map_get_set: "Map_get (Map_set m k v) k' = (if k' = k then Some v else Map_get m k')"
  by (simp add: Map_get_def Map_set_def update_conv')

lemma Map_get_delete: "Map_get (Map_delete m k) k' = (if k' = k then None else Map_get m k')"
  by (simp add: Map_get_def Map_delete_def delete_conv')

lemma getEntry_createEntry:
  "getEntry (snd (createEntry st now d)) k =
     (if k = currentId st then Some (fst (createEntry st now d)) else getEntry st k)"
  by (simp add: getEntry_def createEntry_def Let_def Map_get_set)

lemma getEntry_deleteEntry:
  "getEntry (deleteEntry st k) k' = (if k' = k then None else getEntry st k')"
  by (simp add: getEntry_def deleteEntry_def Map_get_delete)

lemma getEntry_updateEntrySharing:
  "getEntry (snd (updateEntrySharing st k b a)) k' =
     (if k' = k
      then map_option (\<lambda>e. e\<lparr>isShared := b, shareId := orShareId a (shareId e)\<rparr>) (getEntry st k)
      else getEntry st k')"
  by (simp add: getEntry_def updateEntrySharing_def Let_def Map_get_set split: option.splits)

lemma createEntry_fst:
  "id' (fst (createEntry st now d)) = currentId st"
  "shareId (fst (createEntry st now d)) = None"
  "isShared (fst (createEntry st now d)) = False"
  "createdAt (fst (createEntry st now d)) = now"
  "userId (fst (createEntry st now d)) = userId_in d"
  by (simp_all add: createEntry_def Let_def)

lemma createEntry_currentId: "currentId (snd (createEntry st now d)) = currentId st + 1"
  by (simp add: createEntry_def Let_def)

lemma createEntry_demoData:
  "createEntry st now (demoData u) =
     (demoEntry (currentId st) u now None False,
      \<lparr>entries = Map_set (entries st) (currentId st) (demoEntry (currentId st) u now None False),
       currentId = currentId st + 1\<rparr>)"
  by (simp add: createEntry_def demoData_def demoEntry_def prepareLocation_def
      prepareScreenInfo_def propOr_def Let_def)

lemma demoStorage_eq:
  "demoStorage =
     \<lparr>entries = [(1, demoEntry 1 ''u1'' 1000 (Some ''tok-a'') True),
                 (2, demoEntry 2 ''u2'' 2000 (Some ''tok-b'') False),
                 (3, demoEntry 3 ''u1'' 2000 None False),
                 (4, demoEntry 4 ''u1'' 2000 None False)],
      currentId = 5\<rparr>"
  by (simp add: demoStorage_def demoCalls_def run_def constructor_def createEntry_demoData
      updateEntrySharing_def Map_get_def Map_set_def orShareId_def demoEntry_def Let_def)

lemma getEntry_demoStorage:
  "getEntry demoStorage 1 = Some (demoEntry 1 ''u1'' 1000 (Some ''tok-a'') True)"
  "getEntry demoStorage 2 = Some (demoEntry 2 ''u2'' 2000 (Some ''tok-b'') False)"
  "getEntry demoStorage 3 = Some (demoEntry 3 ''u1'' 2000 None False)"
  "getEntry demoStorage 7 = None"
  by (simp_all add: demoStorage_eq getEntry_def Map_get_def)

lemma toNumber_small: "n < 2 ^ 53 \<Longrightarrow> toNumber neg n = Num (if neg then - int n else int n)"
proof -
  assume a: "n < 2 ^ 53"
  have "(2::nat) ^ 53 < 2 ^ 1024" by simp
  with a have "\<not> 2 ^ 1024 \<le> n" by simp
  with a show ?thesis by (simp add: toNumber_def roundToDouble_def)
qed

lemmas parseInt_eval = parseInt_def signedPart_def radixPart_def hasHexPrefix_def
  isWhiteSpace_def isRadixDigit_def digitValue_def digitsValue_def units_def toNumber_small

lemma parseInt_demo:
  "parseInt (units ''2'') = Num 2"
  "parseInt (units ''3'') = Num 3"
  "parseInt (units ''7'') = Num 7"
  by (simp_all add: parseInt_eval)

lemma find_Some_ex: "(\<exists>e. List.find P xs = Some e) = (\<exists>e \<in> set xs. P e)"
  by (induction xs) auto

lemma find_Some_D: "List.find P xs = Some e \<Longrightarrow> e \<in> set xs \<and> P e"
  by (induction xs) (auto split: if_splits)

subsection \<open>The shape of a repository\<close>

lemma wellFormed_iff:
  "wellFormed st \<longleftrightarrow>
     1 \<le> currentId st \<and> distinct (map fst (entries st)) \<and>
     (\<forall>k e. getEntry st k = Some e \<longrightarrow> id' e = k \<and> 1 \<le> k \<and> k < currentId st)"
proof (cases "distinct (map fst (entries st))")
  case True
  then show ?thesis
    by (auto simp: wellFormed_def getEntry_def Map_get_def list_all_iff)
next
  case False
  then show ?thesis by (simp add: wellFormed_def)
qed

lemma wellFormed_constructor: "wellFormed constructor"
  by (simp add: wellFormed_def constructor_def)

lemma entries_createEntry:
  "entries (snd (createEntry st now d)) = Map_set (entries st) (currentId st) (fst (createEntry st now d))"
  by (simp add: createEntry_def Let_def)

lemma entries_deleteEntry: "entries (deleteEntry st k) = Map_delete (entries st) k"
  by (simp add: deleteEntry_def)

lemma currentId_deleteEntry: "currentId (deleteEntry st k) = currentId st"
  by (simp add: deleteEntry_def)

lemma currentId_updateEntrySharing: "currentId (snd (updateEntrySharing st k b a)) = currentId st"
  by (simp add: updateEntrySharing_def Let_def split: option.splits)

lemma distinct_updateEntrySharing:
  "distinct (map fst (entries st)) \<Longrightarrow> distinct (map fst (entries (snd (updateEntrySharing st k b a))))"
  by (simp add: updateEntrySharing_def Let_def Map_set_def distinct_update split: option.splits)

lemma wellFormed_call: "wellFormed st \<Longrightarrow> wellFormed (call st c)"
proof (cases c)
  case (CreateEntry now d)
  assume wf: "wellFormed st"
  then have d: "distinct (map fst (entries (call st c)))"
    by (simp add: CreateEntry wellFormed_iff entries_createEntry Map_set_def distinct_update)
  from wf have c1: "1 \<le> currentId (call st c)"
    by (simp add: CreateEntry wellFormed_iff createEntry_currentId)
  have "id' e = k \<and> 1 \<le> k \<and> k < currentId (call st c)"
    if g: "getEntry (call st c) k = Some e" for k e
  proof (cases "k = currentId st")
    case True
    from wf have "1 \<le> currentId st"
      by (simp add: wellFormed_iff)
    moreover from True g have "e = fst (createEntry st now d)"
      by (simp add: CreateEntry getEntry_createEntry)
    ultimately show ?thesis using True
      by (simp add: CreateEntry createEntry_currentId createEntry_fst)
  next
    case False
    with g have "getEntry st k = Some e"
      by (simp add: CreateEntry getEntry_createEntry)
    with wf have "id' e = k \<and> 1 \<le> k \<and> k < currentId st"
      by (simp add: wellFormed_iff)
    then show ?thesis
      by (simp add: CreateEntry createEntry_currentId)
  qed
  with d c1 show ?thesis by (simp add: wellFormed_iff)
next
  case (DeleteEntry k)
  assume wf: "wellFormed st"
  then have d: "distinct (map fst (entries (call st c)))"
    by (simp add: DeleteEntry wellFormed_iff entries_deleteEntry Map_delete_def distinct_delete)
  from wf have c1: "1 \<le> currentId (call st c)"
    by (simp add: DeleteEntry wellFormed_iff currentId_deleteEntry)
  have "id' e = k' \<and> 1 \<le> k' \<and> k' < currentId (call st c)"
    if g: "getEntry (call st c) k' = Some e" for k' e
  proof -
    from g have "getEntry st k' = Some e"
      by (simp add: DeleteEntry getEntry_deleteEntry split: if_splits)
    with wf show ?thesis
      by (simp add: wellFormed_iff DeleteEntry currentId_deleteEntry)
  qed
  with d c1 show ?thesis by (simp add: wellFormed_iff)
next
  case (UpdateEntrySharing k b a)
  assume wf: "wellFormed st"
  then have d: "distinct (map fst (entries (call st c)))"
    by (simp add: UpdateEntrySharing wellFormed_iff distinct_updateEntrySharing)
  from wf have c1: "1 \<le> currentId (call st c)"
    by (simp add: UpdateEntrySharing wellFormed_iff currentId_updateEntrySharing)
  have "id' e = k' \<and> 1 \<le> k' \<and> k' < currentId (call st c)"
    if g: "getEntry (call st c) k' = Some e" for k' e
  proof (cases "k' = k")
    case True
    with g obtain e0 where e0: "getEntry st k = Some e0"
      and e: "e = e0\<lparr>isShared := b, shareId := orShareId a (shareId e0)\<rparr>"
      by (auto simp: UpdateEntrySharing getEntry_updateEntrySharing)
    from wf e0 have "id' e0 = k \<and> 1 \<le> k \<and> k < currentId st"
      by (simp add: wellFormed_iff)
    with True e show ?thesis
      by (simp add: UpdateEntrySharing currentId_updateEntrySharing)
  next
    case False
    with g have "getEntry st k' = Some e"
      by (simp add: UpdateEntrySharing getEntry_updateEntrySharing)
    with wf show ?thesis
      by (simp add: wellFormed_iff UpdateEntrySharing currentId_updateEntrySharing)
  qed
  with d c1 show ?thesis by (simp add: wellFormed_iff)
qed

lemma wellFormed_foldl: "wellFormed st \<Longrightarrow> wellFormed (foldl call st cs)"
  by (induction cs arbitrary: st) (simp_all add: wellFormed_call)

lemma wellFormed_run: "wellFormed (run cs)"
  by (simp add: run_def wellFormed_foldl wellFormed_constructor)

lemma createEntries_ids:
  "map id' (fst (createEntries st xs)) = [currentId st .. currentId st + int (length xs) - 1]"
proof (induction xs arbitrary: st)
  case Nil
  then show ?case by simp
next
  case (Cons x xs)
  obtain now d where x: "x = (now, d)" by (cases x)
  obtain e st' where c: "createEntry st now d = (e, st')" by (cases "createEntry st now d")
  have e: "id' e = currentId st" using createEntry_fst(1)[of st now d] c by simp
  have s: "currentId st' = currentId st + 1" using createEntry_currentId[of st now d] c by simp
  have "map id' (fst (createEntries st (x # xs))) = id' e # map id' (fst (createEntries st' xs))"
    by (simp add: x c split: prod.splits)
  also have "\<dots> = currentId st # [currentId st + 1 .. currentId st + 1 + int (length xs) - 1]"
    by (simp add: Cons.IH e s)
  also have "\<dots> = [currentId st .. currentId st + int (length (x # xs)) - 1]"
    by (simp add: upto_rec1[of "currentId st"])
  finally show ?case .
qed

lemma getEntry_wellFormed:
  "wellFormed st \<Longrightarrow> getEntry st k = Some e \<Longrightarrow> id' e = k \<and> 1 \<le> k \<and> k < currentId st"
  by (simp add: wellFormed_iff)

lemma call_keeps_entry:
  assumes wf: "wellFormed st" and g: "getEntry st k = Some e" and c: "c \<noteq> DeleteEntry k"
  shows "\<exists>e'. getEntry (call st c) k = Some e' \<and> id' e' = k"
proof -
  from wf g have k: "id' e = k" "k < currentId st" by (simp_all add: wellFormed_iff)
  show ?thesis
  proof (cases c)
    case (CreateEntry now d)
    with g k show ?thesis by (simp add: getEntry_createEntry)
  next
    case (DeleteEntry k')
    with c g k show ?thesis by (simp add: getEntry_deleteEntry)
  next
    case (UpdateEntrySharing k' b a)
    with g k show ?thesis by (auto simp: getEntry_updateEntrySharing)
  qed
qed

lemma POST_unshare_found:
  assumes "parseInt idParam = Num k" "getEntry st k = Some e"
  shows "POST_unshare st idParam =
           ((200, Message ''Entry is no longer shared''), snd (updateEntrySharing st k False None))"
  using assms by (simp add: POST_unshare_def updateEntrySharing_def getEntry_def Let_def)

lemma POST_share_found:
  assumes "parseInt idParam = Num k" "getEntry st k = Some e"
  shows "POST_share st uuid idParam =
           ((200, Shared (orShareId (Some (shareIdOr (shareId e) uuid)) (shareId e))
                         (shareUrl (orShareId (Some (shareIdOr (shareId e) uuid)) (shareId e)))),
            snd (updateEntrySharing st k True (Some (shareIdOr (shareId e) uuid))))"
  using assms by (simp add: POST_share_def updateEntrySharing_def getEntry_def Let_def)

lemma noEmptyShareId_call:
  assumes "\<forall>k e. getEntry st k = Some e \<longrightarrow> shareId e \<noteq> Some []"
  shows "\<forall>k e. getEntry (call st c) k = Some e \<longrightarrow> shareId e \<noteq> Some []"
proof (cases c)
  case (CreateEntry now d)
  with assms show ?thesis by (auto simp: getEntry_createEntry createEntry_fst split: if_splits)
next
  case (DeleteEntry k')
  with assms show ?thesis by (auto simp: getEntry_deleteEntry split: if_splits)
next
  case (UpdateEntrySharing k' b a)
  with assms show ?thesis
    by (auto simp: getEntry_updateEntrySharing orShareId_def split: if_splits option.splits)
qed

lemma noEmptyShareId_foldl:
  "\<forall>k e. getEntry st k = Some e \<longrightarrow> shareId e \<noteq> Some [] \<Longrightarrow>
   \<forall>k e. getEntry (foldl call st cs) k = Some e \<longrightarrow> shareId e \<noteq> Some []"
proof (induction cs arbitrary: st)
  case Nil
  then show ?case by simp
next
  case (Cons c cs)
  from Cons.prems have "\<forall>k e. getEntry (call st c) k = Some e \<longrightarrow> shareId e \<noteq> Some []"
    by (rule noEmptyShareId_call)
  then show ?case using Cons.IH by simp
qed

lemma noEmptyShareId_run: "getEntry (run cs) k = Some e \<Longrightarrow> shareId e \<noteq> Some []"
proof -
  have "\<forall>k e. getEntry constructor k = Some e \<longrightarrow> shareId e \<noteq> Some []"
    by (simp add: getEntry_def constructor_def Map_get_def)
  then have "\<forall>k e. getEntry (foldl call constructor cs) k = Some e \<longrightarrow> shareId e \<noteq> Some []"
    by (rule noEmptyShareId_foldl)
  then show "getEntry (run cs) k = Some e \<Longrightarrow> shareId e \<noteq> Some []"
    by (simp add: run_def)
qed

lemma shareId_kept_call:
  assumes wf: "wellFormed st" and g: "getEntry st k = Some e" and s: "shareId e \<noteq> None"
    and g': "getEntry (call st c) k = Some e'"
  shows "shareId e' \<noteq> None"
proof (cases c)
  case (CreateEntry now d)
  from wf g have "k \<noteq> currentId st" by (auto simp: wellFormed_iff)
  with g g' s CreateEntry show ?thesis by (simp add: getEntry_createEntry)
next
  case (DeleteEntry k')
  with g g' s show ?thesis by (simp add: getEntry_deleteEntry split: if_splits)
next
  case (UpdateEntrySharing k' b a)
  with g g' s show ?thesis
    by (auto simp: getEntry_updateEntrySharing orShareId_def split: if_splits option.splits)
qed

section \<open>Lookup by share token\<close>

text \<open>
  C4. \<open>getEntryByShareId\<close> returns an entry exactly when some stored entry has the token
  as its \<open>shareId\<close> and is shared, and the entry it returns is such an entry. When no
  stored entry is both (the token is unknown, or it belongs to an entry that is not
  shared), the result is the one value \<open>undefined\<close>.
\<close>

theorem getEntryByShareId_shared_only:
  "((\<exists>e. getEntryByShareId st token = Some e) \<longleftrightarrow>
      (\<exists>e \<in> set (Map_values (entries st)). shareId e = Some token \<and> isShared e)) \<and>
   (\<forall>e. getEntryByShareId st token = Some e \<longrightarrow>
      e \<in> set (Map_values (entries st)) \<and> shareId e = Some token \<and> isShared e) \<and>
   ((\<forall>e \<in> set (Map_values (entries st)). shareId e \<noteq> Some token \<or> \<not> isShared e) \<longrightarrow>
      getEntryByShareId st token = None)"
proof (intro conjI allI impI)
  show "(\<exists>e. getEntryByShareId st token = Some e) \<longleftrightarrow>
      (\<exists>e \<in> set (Map_values (entries st)). shareId e = Some token \<and> isShared e)"
    unfolding getEntryByShareId_def by (rule find_Some_ex)
next
  fix e assume "getEntryByShareId st token = Some e"
  then have "e \<in> set (Map_values (entries st)) \<and> (shareId e = Some token \<and> isShared e)"
    unfolding getEntryByShareId_def by (rule find_Some_D)
  then show "e \<in> set (Map_values (entries st))" "shareId e = Some token" "isShared e"
    by simp_all
next
  assume "\<forall>e \<in> set (Map_values (entries st)). shareId e \<noteq> Some token \<or> \<not> isShared e"
  then show "getEntryByShareId st token = None"
    unfolding getEntryByShareId_def by (auto simp: find_None_iff)
qed

theorem getEntryByShareId_shared_only_witness:
  "(\<exists>e \<in> set (Map_values (entries demoStorage)). shareId e = Some ''tok-a'' \<and> isShared e) \<and>
   (\<exists>e. getEntryByShareId demoStorage ''tok-a'' = Some e \<and> id' e = 1) \<and>
   (\<exists>e \<in> set (Map_values (entries demoStorage)). shareId e = Some ''tok-b'' \<and> \<not> isShared e) \<and>
   getEntryByShareId demoStorage ''tok-b'' = None \<and>
   getEntryByShareId demoStorage ''tok-c'' = None"
proof -
  have a: "\<exists>e \<in> set (Map_values (entries demoStorage)). shareId e = Some ''tok-a'' \<and> isShared e"
    by (simp add: demoStorage_eq Map_values_def demoEntry_def)
  have b: "\<forall>e \<in> set (Map_values (entries demoStorage)). shareId e \<noteq> Some ''tok-b'' \<or> \<not> isShared e"
    by (simp add: demoStorage_eq Map_values_def demoEntry_def)
  have c: "\<forall>e \<in> set (Map_values (entries demoStorage)). shareId e \<noteq> Some ''tok-c'' \<or> \<not> isShared e"
    by (simp add: demoStorage_eq Map_values_def demoEntry_def)
  have b': "\<exists>e \<in> set (Map_values (entries demoStorage)). shareId e = Some ''tok-b'' \<and> \<not> isShared e"
    by (simp add: demoStorage_eq Map_values_def demoEntry_def)
  from a getEntryByShareId_shared_only [of demoStorage "''tok-a''"]
  obtain e where e: "getEntryByShareId demoStorage ''tok-a'' = Some e" by blast
  with getEntryByShareId_shared_only [of demoStorage "''tok-a''"]
  have "e \<in> set (Map_values (entries demoStorage))" "shareId e = Some ''tok-a''" by blast+
  then have "id' e = 1" by (auto simp: demoStorage_eq Map_values_def demoEntry_def)
  with e have a': "\<exists>e. getEntryByShareId demoStorage ''tok-a'' = Some e \<and> id' e = 1" by blast
  from b getEntryByShareId_shared_only [of demoStorage "''tok-b''"]
  have nb: "getEntryByShareId demoStorage ''tok-b'' = None" by blast
  from c getEntryByShareId_shared_only [of demoStorage "''tok-c''"]
  have nc: "getEntryByShareId demoStorage ''tok-c'' = None" by blast
  from a a' b' nb nc show ?thesis by blast
qed

section \<open>Ids\<close>

text \<open>
  C8. The ids that N successive \<open>createEntry\<close> calls assign on a new repository are
  1, 2, ..., N; from any repository they are strictly increasing without repeats. After any
  sequence of calls the repository is well formed: each key is stored once and is the id of
  its entry, below the counter, which is the id the next \<open>createEntry\<close> assigns. An entry
  keeps its id under every call but its own deletion.
\<close>

theorem createEntry_ids_strictly_increasing:
  "map id' (fst (createEntries constructor xs)) = [1 .. int (length xs)] \<and>
   sorted_wrt (<) (map id' (fst (createEntries st xs))) \<and>
   distinct (map id' (fst (createEntries st xs))) \<and>
   wellFormed (run cs) \<and>
   (\<forall>k e. getEntry (run cs) k = Some e \<longrightarrow> id' e = k \<and> k < currentId (run cs)) \<and>
   id' (fst (createEntry (run cs) now d)) = currentId (run cs) \<and>
   (\<forall>k. getEntry (run cs) k \<noteq> None \<and> c \<noteq> DeleteEntry k \<longrightarrow>
      (\<exists>e'. getEntry (call (run cs) c) k = Some e' \<and> id' e' = k))"
proof (intro conjI allI impI)
  show "map id' (fst (createEntries constructor xs)) = [1 .. int (length xs)]"
    by (simp add: createEntries_ids constructor_def)
  show "sorted_wrt (<) (map id' (fst (createEntries st xs)))"
    by (simp add: createEntries_ids)
  show "distinct (map id' (fst (createEntries st xs)))"
    by (simp add: createEntries_ids)
  show "wellFormed (run cs)" by (rule wellFormed_run)
  show "id' (fst (createEntry (run cs) now d)) = currentId (run cs)"
    by (rule createEntry_fst)
next
  fix k e assume "getEntry (run cs) k = Some e"
  with getEntry_wellFormed [OF wellFormed_run] have "id' e = k \<and> 1 \<le> k \<and> k < currentId (run cs)" .
  then show "id' e = k" "k < currentId (run cs)" by simp_all
next
  fix k assume "getEntry (run cs) k \<noteq> None \<and> c \<noteq> DeleteEntry k"
  then obtain e where "getEntry (run cs) k = Some e" "c \<noteq> DeleteEntry k" by auto
  then show "\<exists>e'. getEntry (call (run cs) c) k = Some e' \<and> id' e' = k"
    by (rule call_keeps_entry [OF wellFormed_run])
qed

theorem createEntry_ids_strictly_increasing_witness:
  "map id' (fst (createEntries constructor
      [(1000, demoData ''u1''), (2000, demoData ''u2''), (2000, demoData ''u1'')])) = [1, 2, 3] \<and>
   wellFormed demoStorage \<and>
   id' (fst (createEntry demoStorage 3000 (demoData ''u3''))) = 5 \<and>
   getEntry demoStorage 2 \<noteq> None \<and> UpdateEntrySharing 2 True None \<noteq> DeleteEntry 2 \<and>
   (\<exists>e'. getEntry (call demoStorage (UpdateEntrySharing 2 True None)) 2 = Some e' \<and> id' e' = 2)"
proof -
  note t = createEntry_ids_strictly_increasing
    [of "[(1000, demoData ''u1''), (2000, demoData ''u2''), (2000, demoData ''u1'')]"
      constructor demoCalls 3000 "demoData ''u3''" "UpdateEntrySharing 2 True None",
      folded demoStorage_def]
  have g: "getEntry demoStorage 2 \<noteq> None \<and> UpdateEntrySharing 2 True None \<noteq> DeleteEntry 2"
    by (simp add: getEntry_demoStorage)
  from t have "map id' (fst (createEntries constructor
      [(1000, demoData ''u1''), (2000, demoData ''u2''), (2000, demoData ''u1'')])) =
      [1 .. int (length [(1000::int, demoData ''u1''), (2000, demoData ''u2''), (2000, demoData ''u1'')])]"
    by (rule conjunct1)
  then have 1: "map id' (fst (createEntries constructor
      [(1000, demoData ''u1''), (2000, demoData ''u2''), (2000, demoData ''u1'')])) = [1, 2, 3]"
    by (simp add: upto_rec1)
  from t have 2: "wellFormed demoStorage" by blast
  from t have "id' (fst (createEntry demoStorage 3000 (demoData ''u3''))) = currentId demoStorage"
    by blast
  then have 3: "id' (fst (createEntry demoStorage 3000 (demoData ''u3''))) = 5"
    by (simp add: demoStorage_eq)
  from t g have 4:
    "\<exists>e'. getEntry (call demoStorage (UpdateEntrySharing 2 True None)) 2 = Some e' \<and> id' e' = 2"
    by blast
  from 1 2 3 g 4 show ?thesis by blast
qed

section \<open>Deletion\<close>

text \<open>
  C9. For an id parameter that \<open>parseInt\<close> reads as \<open>k\<close>: when no entry has the id \<open>k\<close>,
  \<open>DELETE /api/entries/:id\<close> answers 404 and leaves the repository as it is; otherwise it
  answers 200 and removes the entry, whatever the entry is, leaving every other entry in
  place. After that, fetching the id answers 404, and deleting it again answers 404.
\<close>

theorem DELETE_entry_not_found_when_absent:
  assumes p: "parseInt idParam = Num k"
  shows "(getEntry st k = None \<longrightarrow>
            DELETE_entry st idParam = ((404, Message ''Entry not found''), st)) \<and>
         (getEntry st k \<noteq> None \<longrightarrow>
            DELETE_entry st idParam = ((200, Message ''Entry deleted successfully''), deleteEntry st k) \<and>
            getEntry (deleteEntry st k) k = None \<and>
            (\<forall>k'. k' \<noteq> k \<longrightarrow> getEntry (deleteEntry st k) k' = getEntry st k') \<and>
            GET_entry (deleteEntry st k) idParam = (404, Message ''Entry not found'') \<and>
            DELETE_entry (deleteEntry st k) idParam =
              ((404, Message ''Entry not found''), deleteEntry st k))"
  using p
  by (auto simp: DELETE_entry_def GET_entry_def getEntry_deleteEntry)

theorem DELETE_entry_not_found_when_absent_witness:
  "parseInt (units ''2'') = Num 2 \<and> getEntry demoStorage 2 \<noteq> None \<and>
   DELETE_entry demoStorage (units ''2'') =
     ((200, Message ''Entry deleted successfully''), deleteEntry demoStorage 2) \<and>
   getEntry (deleteEntry demoStorage 2) 2 = None \<and>
   GET_entry (deleteEntry demoStorage 2) (units ''2'') = (404, Message ''Entry not found'') \<and>
   DELETE_entry (deleteEntry demoStorage 2) (units ''2'') =
     ((404, Message ''Entry not found''), deleteEntry demoStorage 2) \<and>
   parseInt (units ''7'') = Num 7 \<and> getEntry demoStorage 7 = None \<and>
   DELETE_entry demoStorage (units ''7'') = ((404, Message ''Entry not found''), demoStorage)"
  using DELETE_entry_not_found_when_absent [OF parseInt_demo(1), of demoStorage]
    DELETE_entry_not_found_when_absent [OF parseInt_demo(3), of demoStorage]
  by (simp add: parseInt_demo getEntry_demoStorage)

section \<open>Sharing\<close>

text \<open>
  C10. The entry \<open>createEntry\<close> returns has \<open>isShared = false\<close> and \<open>shareId = null\<close>, and it
  is the same entry whatever \<open>shareId\<close> and \<open>isShared\<close> the submission carries; so is the
  entry a 201 response of \<open>POST /api/entries\<close> carries, which is the entry stored. A call
  other than \<open>updateEntrySharing\<close> leaves no entry with a share token that was not
  already stored with it.
\<close>

theorem createEntry_never_shared:
  "shareId (fst (createEntry st now entryData)) = None \<and>
   isShared (fst (createEntry st now entryData)) = False \<and>
   fst (createEntry st now (entryData\<lparr>shareId_in := s, isShared_in := b\<rparr>)) =
     fst (createEntry st now entryData) \<and>
   (\<forall>e st'. POST_entries st now body = ((201, Entry e), st') \<longrightarrow>
      shareId e = None \<and> isShared e = False \<and> getEntry st' (id' e) = Some e) \<and>
   (\<forall>k e. \<not> isSharingUpdate c \<and> getEntry (call st c) k = Some e \<and> shareId e \<noteq> None \<longrightarrow>
      getEntry st k = Some e)"
proof (intro conjI allI impI)
  show "shareId (fst (createEntry st now entryData)) = None"
    and "isShared (fst (createEntry st now entryData)) = False"
    by (simp_all add: createEntry_fst)
  show "fst (createEntry st now (entryData\<lparr>shareId_in := s, isShared_in := b\<rparr>)) =
     fst (createEntry st now entryData)"
    by (simp add: createEntry_def Let_def)
next
  fix e st' assume a: "POST_entries st now body = ((201, Entry e), st')"
  then obtain d where d: "e = fst (createEntry st now d)" "st' = snd (createEntry st now d)"
    by (auto simp: POST_entries_def split: if_splits sum.splits prod.splits)
      (metis fst_conv snd_conv)
  then show "shareId e = None" "isShared e = False" "getEntry st' (id' e) = Some e"
    by (simp_all add: createEntry_fst getEntry_createEntry)
next
  fix k e assume a: "\<not> isSharingUpdate c \<and> getEntry (call st c) k = Some e \<and> shareId e \<noteq> None"
  show "getEntry st k = Some e"
  proof (cases c)
    case (CreateEntry now' d)
    with a have "k \<noteq> currentId st"
      by (auto simp: getEntry_createEntry createEntry_fst)
    with a CreateEntry show ?thesis by (simp add: getEntry_createEntry)
  next
    case (DeleteEntry k')
    with a show ?thesis by (simp add: getEntry_deleteEntry split: if_splits)
  next
    case (UpdateEntrySharing k' b' a')
    with a show ?thesis by simp
  qed
qed

theorem createEntry_never_shared_witness:
  "getProp demoBody ''shareId'' = Some (JStr ''mine'') \<and>
   getProp demoBody ''isShared'' = Some (JBool True) \<and>
   (\<exists>e st'. POST_entries constructor 1000 demoBody = ((201, Entry e), st') \<and>
      shareId e = None \<and> isShared e = False \<and> getEntry st' (id' e) = Some e) \<and>
   \<not> isSharingUpdate (DeleteEntry 2) \<and>
   getEntry (call demoStorage (DeleteEntry 2)) 1 = Some (demoEntry 1 ''u1'' 1000 (Some ''tok-a'') True) \<and>
   shareId (demoEntry 1 ''u1'' 1000 (Some ''tok-a'') True) \<noteq> None \<and>
   getEntry demoStorage 1 = Some (demoEntry 1 ''u1'' 1000 (Some ''tok-a'') True)"
proof -
  note t = createEntry_never_shared [of constructor 1000 _ _ _ demoBody]
  have b: "getProp demoBody ''shareId'' = Some (JStr ''mine'') \<and>
           getProp demoBody ''isShared'' = Some (JBool True)"
    by (simp add: demoBody_def)
  have p: "POST_entries constructor 1000 demoBody =
             ((201, Entry (demoEntry 1 ''u1'' 1000 None False)),
              \<lparr>entries = [(1, demoEntry 1 ''u1'' 1000 None False)], currentId = 2\<rparr>)"
    by (simp add: POST_entries_def demoBody_def truthy_opt_def safeParse_def fieldIssues_def
        issue_def isString_def isBoolean_def ensureCaption_def createEntry_def constructor_def
        prepareLocation_def prepareScreenInfo_def propOr_def Map_set_def demoEntry_def Let_def)
  with t have 1: "\<exists>e st'. POST_entries constructor 1000 demoBody = ((201, Entry e), st') \<and>
      shareId e = None \<and> isShared e = False \<and> getEntry st' (id' e) = Some e"
    by blast
  have d: "\<not> isSharingUpdate (DeleteEntry 2) \<and>
      getEntry (call demoStorage (DeleteEntry 2)) 1 = Some (demoEntry 1 ''u1'' 1000 (Some ''tok-a'') True) \<and>
      shareId (demoEntry 1 ''u1'' 1000 (Some ''tok-a'') True) \<noteq> None"
    by (simp add: getEntry_deleteEntry getEntry_demoStorage demoEntry_def)
  with createEntry_never_shared [of demoStorage _ _ _ _ _ "DeleteEntry 2"]
  have 2: "getEntry demoStorage 1 = Some (demoEntry 1 ''u1'' 1000 (Some ''tok-a'') True)"
    by blast
  from b 1 d 2 show ?thesis by blast
qed

text \<open>
  C3. For an id parameter that \<open>parseInt\<close> reads as the id of a stored entry:
  \<open>POST /api/entries/:id/unshare\<close> clears \<open>isShared\<close> and changes nothing else of the entry,
  its \<open>shareId\<close> included. \<open>POST /api/entries/:id/share\<close> on an entry with a non-empty
  \<open>shareId\<close> answers with that token and sets \<open>isShared\<close> only, whatever \<open>uuidv4()\<close> returns,
  also right after an unshare; on an entry without a \<open>shareId\<close> it stores the token
  \<open>uuidv4()\<close> returned. After any sequence of calls, no call turns a \<open>shareId\<close> that is
  not null into null on an entry it keeps, and no stored \<open>shareId\<close> is the empty string.
\<close>

theorem shareId_persists:
  assumes p: "parseInt idParam = Num k" and g: "getEntry st k = Some e"
  shows "POST_unshare st idParam =
           ((200, Message ''Entry is no longer shared''), snd (updateEntrySharing st k False None)) \<and>
         getEntry (snd (POST_unshare st idParam)) k = Some (e\<lparr>isShared := False\<rparr>) \<and>
         (\<forall>t. shareId e = Some t \<and> t \<noteq> [] \<longrightarrow>
            fst (POST_share st uuid idParam) = (200, Shared (Some t) (''/shared/'' @ t)) \<and>
            getEntry (snd (POST_share st uuid idParam)) k = Some (e\<lparr>isShared := True\<rparr>) \<and>
            getEntry (snd (POST_share (snd (POST_unshare st idParam)) uuid idParam)) k =
              Some (e\<lparr>isShared := True\<rparr>)) \<and>
         (shareId e = None \<and> uuid \<noteq> [] \<longrightarrow>
            fst (POST_share st uuid idParam) = (200, Shared (Some uuid) (''/shared/'' @ uuid)) \<and>
            getEntry (snd (POST_share st uuid idParam)) k =
              Some (e\<lparr>isShared := True, shareId := Some uuid\<rparr>)) \<and>
         (\<forall>j x x'. getEntry (run cs) j = Some x \<and> shareId x \<noteq> None \<and>
            getEntry (call (run cs) c) j = Some x' \<longrightarrow> shareId x' \<noteq> None) \<and>
         (\<forall>j x. getEntry (run cs) j = Some x \<longrightarrow> shareId x \<noteq> Some [])"
proof (intro conjI allI impI)
  show u: "POST_unshare st idParam =
           ((200, Message ''Entry is no longer shared''), snd (updateEntrySharing st k False None))"
    using p g by (rule POST_unshare_found)
  show g1: "getEntry (snd (POST_unshare st idParam)) k = Some (e\<lparr>isShared := False\<rparr>)"
    using g by (simp add: u getEntry_updateEntrySharing orShareId_def)
  {
    fix t assume t: "shareId e = Some t \<and> t \<noteq> []"
    have s: "POST_share st' uuid idParam =
           ((200, Shared (Some t) (shareUrl (Some t))),
            snd (updateEntrySharing st' k True (Some t)))"
      if "getEntry st' k = Some e'" "shareId e' = Some t" for st' e'
      using POST_share_found [OF p that(1), of uuid] that(2) t
      by (simp add: shareIdOr_def orShareId_def)
    show "fst (POST_share st uuid idParam) = (200, Shared (Some t) (''/shared/'' @ t))"
      using s [OF g] t by (simp add: shareUrl_def)
    show "getEntry (snd (POST_share st uuid idParam)) k = Some (e\<lparr>isShared := True\<rparr>)"
      using s [OF g] t g by (simp add: getEntry_updateEntrySharing orShareId_def)
    have "POST_share (snd (POST_unshare st idParam)) uuid idParam =
           ((200, Shared (Some t) (shareUrl (Some t))),
            snd (updateEntrySharing (snd (POST_unshare st idParam)) k True (Some t)))"
      using s [OF g1] t by simp
    then show "getEntry (snd (POST_share (snd (POST_unshare st idParam)) uuid idParam)) k =
              Some (e\<lparr>isShared := True\<rparr>)"
      using t g1 by (simp add: getEntry_updateEntrySharing orShareId_def)
  }
  {
    assume n: "shareId e = None \<and> uuid \<noteq> []"
    have s: "POST_share st uuid idParam =
           ((200, Shared (Some uuid) (shareUrl (Some uuid))),
            snd (updateEntrySharing st k True (Some uuid)))"
      using POST_share_found [OF p g, of uuid] n by (simp add: shareIdOr_def orShareId_def)
    show "fst (POST_share st uuid idParam) = (200, Shared (Some uuid) (''/shared/'' @ uuid))"
      using s by (simp add: shareUrl_def)
    show "getEntry (snd (POST_share st uuid idParam)) k =
              Some (e\<lparr>isShared := True, shareId := Some uuid\<rparr>)"
      using s n g by (simp add: getEntry_updateEntrySharing orShareId_def)
  }
next
  fix j x x'
  assume "getEntry (run cs) j = Some x \<and> shareId x \<noteq> None \<and> getEntry (call (run cs) c) j = Some x'"
  then show "shareId x' \<noteq> None"
    using shareId_kept_call [OF wellFormed_run, of cs j x c x'] by simp
next
  fix j x assume "getEntry (run cs) j = Some x"
  then show "shareId x \<noteq> Some []" by (rule noEmptyShareId_run)
qed

theorem shareId_persists_witness:
  "parseInt (units ''2'') = Num 2 \<and>
   getEntry demoStorage 2 = Some (demoEntry 2 ''u2'' 2000 (Some ''tok-b'') False) \<and>
   getEntry (snd (POST_unshare demoStorage (units ''2''))) 2 = Some (demoEntry 2 ''u2'' 2000 (Some ''tok-b'') False) \<and>
   fst (POST_share demoStorage ''fresh'' (units ''2'')) = (200, Shared (Some ''tok-b'') ''/shared/tok-b'') \<and>
   getEntry (snd (POST_share demoStorage ''fresh'' (units ''2''))) 2 = Some (demoEntry 2 ''u2'' 2000 (Some ''tok-b'') True) \<and>
   parseInt (units ''3'') = Num 3 \<and>
   getEntry demoStorage 3 = Some (demoEntry 3 ''u1'' 2000 None False) \<and>
   fst (POST_share demoStorage ''fresh'' (units ''3'')) = (200, Shared (Some ''fresh'') ''/shared/fresh'') \<and>
   getEntry (snd (POST_share demoStorage ''fresh'' (units ''3''))) 3 = Some (demoEntry 3 ''u1'' 2000 (Some ''fresh'') True)"
proof -
  have s2: "shareId (demoEntry 2 ''u2'' 2000 (Some ''tok-b'') False) = Some ''tok-b'' \<and> ''tok-b'' \<noteq> []"
    by (simp add: demoEntry_def)
  have s3: "shareId (demoEntry 3 ''u1'' 2000 None False) = None \<and> ''fresh'' \<noteq> []"
    by (simp add: demoEntry_def)
  note t2 = shareId_persists [OF parseInt_demo(1) getEntry_demoStorage(2), of "''fresh''"]
  note t3 = shareId_persists [OF parseInt_demo(2) getEntry_demoStorage(3), of "''fresh''"]
  from t2 have "getEntry (snd (POST_unshare demoStorage (units ''2''))) 2 =
      Some ((demoEntry 2 ''u2'' 2000 (Some ''tok-b'') False)\<lparr>isShared := False\<rparr>)"
    by blast
  then have a: "getEntry (snd (POST_unshare demoStorage (units ''2''))) 2 =
      Some (demoEntry 2 ''u2'' 2000 (Some ''tok-b'') False)"
    by (simp add: demoEntry_def)
  from t2 s2 have "fst (POST_share demoStorage ''fresh'' (units ''2'')) =
        (200, Shared (Some ''tok-b'') (''/shared/'' @ ''tok-b'')) \<and>
      getEntry (snd (POST_share demoStorage ''fresh'' (units ''2''))) 2 =
        Some ((demoEntry 2 ''u2'' 2000 (Some ''tok-b'') False)\<lparr>isShared := True\<rparr>)"
    by blast
  then have b: "fst (POST_share demoStorage ''fresh'' (units ''2'')) =
        (200, Shared (Some ''tok-b'') ''/shared/tok-b'') \<and>
      getEntry (snd (POST_share demoStorage ''fresh'' (units ''2''))) 2 =
        Some (demoEntry 2 ''u2'' 2000 (Some ''tok-b'') True)"
    by (simp add: demoEntry_def)
  from t3 s3 have "fst (POST_share demoStorage ''fresh'' (units ''3'')) =
        (200, Shared (Some ''fresh'') (''/shared/'' @ ''fresh'')) \<and>
      getEntry (snd (POST_share demoStorage ''fresh'' (units ''3''))) 3 =
        Some ((demoEntry 3 ''u1'' 2000 None False)\<lparr>isShared := True, shareId := Some ''fresh''\<rparr>)"
    by blast
  then have c: "fst (POST_share demoStorage ''fresh'' (units ''3'')) =
        (200, Shared (Some ''fresh'') ''/shared/fresh'') \<and>
      getEntry (snd (POST_share demoStorage ''fresh'' (units ''3''))) 3 =
        Some (demoEntry 3 ''u1'' 2000 (Some ''fresh'') True)"
    by (simp add: demoEntry_def)
  from a b c show ?thesis
    by (simp add: parseInt_demo getEntry_demoStorage)
qed

section \<open>Listing\<close>

lemma mset_insert_cmp: "mset (insert_cmp c x xs) = add_mset x (mset xs)"
  by (induction xs) auto

lemma mset_Array_sort: "mset (Array_sort c xs) = mset xs"
  unfolding Array_sort_def by (induction xs) (auto simp: mset_insert_cmp)

lemma set_insert_cmp: "set (insert_cmp c x xs) = insert x (set xs)"
  by (induction xs) auto

lemma sorted_insert_cmp:
  "sorted_wrt (\<lambda>a b. createdAt b \<le> createdAt a) xs \<Longrightarrow>
   sorted_wrt (\<lambda>a b. createdAt b \<le> createdAt a) (insert_cmp byCreatedAtDesc x xs)"
  by (induction xs) (auto simp: set_insert_cmp byCreatedAtDesc_def)

lemma sorted_Array_sort:
  "sorted_wrt (\<lambda>a b. createdAt b \<le> createdAt a) (Array_sort byCreatedAtDesc xs)"
  unfolding Array_sort_def by (induction xs) (auto simp: sorted_insert_cmp)

lemma filter_insert_cmp:
  "filter (\<lambda>e. createdAt e = t) (insert_cmp byCreatedAtDesc x xs) =
     (if createdAt x = t then x # filter (\<lambda>e. createdAt e = t) xs
      else filter (\<lambda>e. createdAt e = t) xs)"
  by (induction xs) (auto simp: byCreatedAtDesc_def)

lemma filter_Array_sort:
  "filter (\<lambda>e. createdAt e = t) (Array_sort byCreatedAtDesc xs) = filter (\<lambda>e. createdAt e = t) xs"
  unfolding Array_sort_def by (induction xs) (auto simp: filter_insert_cmp)

text \<open>
  C7. \<open>getEntriesByUserId\<close> returns exactly the stored entries of the user (as a
  multiset, so no entry of another user and none twice), most recent first, and the
  entries of one \<open>createdAt\<close> in the order of the Map, which is the order of insertion.
  Without an entry of the user the result is the empty list, and
  \<open>GET /api/entries?userId=u\<close> answers 200 with the list for every non-empty \<open>u\<close>.
\<close>

theorem getEntriesByUserId_filtered_sorted_stable:
  "mset (getEntriesByUserId st u) = mset (filter (\<lambda>e. userId e = u) (Map_values (entries st))) \<and>
   set (getEntriesByUserId st u) = {e \<in> set (Map_values (entries st)). userId e = u} \<and>
   sorted_wrt (\<lambda>a b. createdAt b \<le> createdAt a) (getEntriesByUserId st u) \<and>
   (\<forall>t. filter (\<lambda>e. createdAt e = t) (getEntriesByUserId st u) =
        filter (\<lambda>e. createdAt e = t) (filter (\<lambda>e. userId e = u) (Map_values (entries st)))) \<and>
   ((\<forall>e \<in> set (Map_values (entries st)). userId e \<noteq> u) \<longrightarrow> getEntriesByUserId st u = []) \<and>
   (u \<noteq> [] \<longrightarrow> GET_entries st (Some u) = (200, Entries (getEntriesByUserId st u)))"
proof (intro conjI allI impI)
  show m: "mset (getEntriesByUserId st u) = mset (filter (\<lambda>e. userId e = u) (Map_values (entries st)))"
    by (simp add: getEntriesByUserId_def mset_Array_sort)
  from m have "set_mset (mset (getEntriesByUserId st u)) =
      set_mset (mset (filter (\<lambda>e. userId e = u) (Map_values (entries st))))"
    by simp
  then show "set (getEntriesByUserId st u) = {e \<in> set (Map_values (entries st)). userId e = u}"
    by simp
  show "sorted_wrt (\<lambda>a b. createdAt b \<le> createdAt a) (getEntriesByUserId st u)"
    by (simp add: getEntriesByUserId_def sorted_Array_sort)
  show "filter (\<lambda>e. createdAt e = t) (getEntriesByUserId st u) =
        filter (\<lambda>e. createdAt e = t) (filter (\<lambda>e. userId e = u) (Map_values (entries st)))" for t
    by (simp add: getEntriesByUserId_def filter_Array_sort)
next
  assume "\<forall>e \<in> set (Map_values (entries st)). userId e \<noteq> u"
  then have "filter (\<lambda>e. userId e = u) (Map_values (entries st)) = []"
    by (simp add: filter_empty_conv)
  then show "getEntriesByUserId st u = []"
    by (simp add: getEntriesByUserId_def Array_sort_def)
next
  assume "u \<noteq> []"
  then show "GET_entries st (Some u) = (200, Entries (getEntriesByUserId st u))"
    by (simp add: GET_entries_def)
qed


theorem getEntriesByUserId_filtered_sorted_stable_witness:
  "getEntriesByUserId demoStorage ''u1'' =
     [demoEntry 3 ''u1'' 2000 None False, demoEntry 4 ''u1'' 2000 None False,
      demoEntry 1 ''u1'' 1000 (Some ''tok-a'') True] \<and>
   ''u1'' \<noteq> [] \<and>
   GET_entries demoStorage (Some ''u1'') =
     (200, Entries [demoEntry 3 ''u1'' 2000 None False, demoEntry 4 ''u1'' 2000 None False,
                    demoEntry 1 ''u1'' 1000 (Some ''tok-a'') True]) \<and>
   \<not> (\<exists>e \<in> set (Map_values (entries demoStorage)). userId e = ''u9'') \<and>
   getEntriesByUserId demoStorage ''u9'' = [] \<and>
   GET_entries demoStorage (Some ''u9'') = (200, Entries [])"
proof -
  have l: "getEntriesByUserId demoStorage ''u1'' =
     [demoEntry 3 ''u1'' 2000 None False, demoEntry 4 ''u1'' 2000 None False,
      demoEntry 1 ''u1'' 1000 (Some ''tok-a'') True]"
    by (simp add: getEntriesByUserId_def demoStorage_eq Map_values_def Array_sort_def
        byCreatedAtDesc_def demoEntry_def)
  have n: "\<forall>e \<in> set (Map_values (entries demoStorage)). userId e \<noteq> ''u9''"
    by (simp add: demoStorage_eq Map_values_def demoEntry_def)
  note t1 = getEntriesByUserId_filtered_sorted_stable [of demoStorage "''u1''"]
  note t9 = getEntriesByUserId_filtered_sorted_stable [of demoStorage "''u9''"]
  from t1 have g1: "GET_entries demoStorage (Some ''u1'') =
      (200, Entries (getEntriesByUserId demoStorage ''u1''))"
    by simp
  from t9 n have e9: "getEntriesByUserId demoStorage ''u9'' = []" by blast
  from t9 have g9: "GET_entries demoStorage (Some ''u9'') =
      (200, Entries (getEntriesByUserId demoStorage ''u9''))"
    by simp
  from l g1 n e9 g9 show ?thesis by simp
qed

section \<open>Fetching one entry\<close>












section \<open>Resizing an image\<close>

lemma nat_floor_scaled: "nat \<lfloor>(real h * real m) / real w\<rfloor> = h * m div w"
proof -
  have "\<lfloor>real (h * m) / real w\<rfloor> = int (h * m div w)"
    by (rule floor_divide_of_nat_eq)
  then show ?thesis by simp
qed

lemma resizeAndCompressImage_nat:
  "resizeAndCompressImage file maxWidth =
     (if \<not> readable file then Inl FailedToReadFile
      else
        (case decoded file of
           None \<Rightarrow> Inl FailedToLoadImage
         | Some (w, h) \<Rightarrow>
             if (if maxWidth < w then maxWidth else w) = 0 \<or>
                (if maxWidth < w then h * maxWidth div w else h) = 0 \<or> \<not> encodes file
             then Inl FailedToCreateBlob
             else Inr \<lparr>pixelWidth = (if maxWidth < w then maxWidth else w),
                       pixelHeight = (if maxWidth < w then h * maxWidth div w else h),
                       mimeType = ''image/jpeg'', quality = 0.7\<rparr>))"
proof -
  have hgt: "nat \<lfloor>if maxWidth < w then real h * real maxWidth / real w else real h\<rfloor> =
      (if maxWidth < w then h * maxWidth div w else h)" for w h
    by (cases "maxWidth < w") (simp_all only: if_True if_False nat_floor_scaled floor_of_nat nat_int)
  have wid: "nat \<lfloor>if maxWidth < w then real maxWidth else real w\<rfloor> =
      (if maxWidth < w then maxWidth else w)" for w
    by (cases "maxWidth < w") (simp_all only: if_True if_False floor_of_nat nat_int)
  show ?thesis
    unfolding resizeAndCompressImage_def Let_def hgt wid
    by (rule refl)
qed

lemma resizeAndCompressImage_Inr:
  assumes "resizeAndCompressImage file maxWidth = Inr out" "decoded file = Some (w, h)"
  shows "out = \<lparr>pixelWidth = (if maxWidth < w then maxWidth else w),
                 pixelHeight = (if maxWidth < w then h * maxWidth div w else h),
                 mimeType = ''image/jpeg'', quality = 0.7\<rparr>"
  using assms
  by (auto simp: resizeAndCompressImage_nat split: if_splits)

lemma resizeAndCompressImage_dimensions:
  assumes r: "resizeAndCompressImage file maxWidth = Inr out" and d: "decoded file = Some (w, h)"
  shows "pixelWidth out = min w maxWidth \<and> pixelWidth out \<le> maxWidth \<and>
         (w \<le> maxWidth \<longrightarrow> pixelWidth out = w \<and> pixelHeight out = h) \<and>
         (maxWidth < w \<longrightarrow>
            pixelWidth out = maxWidth \<and> pixelHeight out = h * maxWidth div w \<and>
            pixelHeight out * w \<le> h * pixelWidth out \<and>
            h * pixelWidth out < (pixelHeight out + 1) * w) \<and>
         pixelHeight out \<le> h \<and>
         mimeType out = ''image/jpeg'' \<and> quality out = 0.7"
proof -
  note o = resizeAndCompressImage_Inr [OF r d]
  have "h * maxWidth div w * w \<le> h * maxWidth" by simp
  moreover have "h * maxWidth < (h * maxWidth div w + 1) * w" if "maxWidth < w"
  proof -
    from that have "0 < w" by simp
    then have "h * maxWidth < w + (h * maxWidth div w) * w" by (rule dividend_less_div_times)
    then show ?thesis by simp
  qed
  moreover have "h * maxWidth div w \<le> h" if "maxWidth < w"
  proof -
    from that have "h * maxWidth \<le> h * w" by simp
    then have "h * maxWidth div w \<le> h * w div w" by (rule div_le_mono)
    with that show ?thesis by simp
  qed
  ultimately show ?thesis using o by (auto simp: min_def)
qed

lemma resizeAndCompressImage_succeeds:
  assumes "readable file" "decoded file = Some (w, h)" "encodes file" "0 < w" "0 < h"
    "maxWidth < w \<longrightarrow> 0 < maxWidth \<and> w \<le> h * maxWidth"
  shows "\<exists>out. resizeAndCompressImage file maxWidth = Inr out"
proof (cases "maxWidth < w")
  case True
  with assms have "1 \<le> h * maxWidth div w"
    by (simp add: div_greater_zero_iff Suc_le_eq)
  with True assms show ?thesis
    by (simp add: resizeAndCompressImage_nat)
next
  case False
  with assms show ?thesis
    by (simp add: resizeAndCompressImage_nat)
qed

text \<open>
  C2, as the claim states it, fails: an image of 600 by 2000 pixels is no wider than 800,
  so it keeps its size, and the larger of its dimensions stays above 800.
\<close>

theorem resizeAndCompressImage_tall_counterexample:
  "resizeAndCompressImage (demoFile 600 2000) 800 =
     Inr \<lparr>pixelWidth = 600, pixelHeight = 2000, mimeType = ''image/jpeg'', quality = 0.7\<rparr> \<and>
   \<not> max (600 :: nat) 2000 \<le> 800"
  by (simp add: resizeAndCompressImage_nat demoFile_def)

text \<open>
  C2, amended. \<open>resizeAndCompressImage\<close> bounds the width only. When it delivers a blob for
  an image of \<open>w\<close> by \<open>h\<close> pixels, the blob is \<open>min w maxWidth\<close> wide, so no wider than
  \<open>maxWidth\<close>: an image no wider than \<open>maxWidth\<close> keeps both dimensions, however high it
  is; a wider one becomes \<open>maxWidth\<close> wide and \<open>h * maxWidth div w\<close> high, which is the
  height of the same aspect ratio cut to whole pixels. The height never grows, and the blob
  is always a JPEG of quality 0.7. A blob is delivered whenever the file is read, decoded
  to a non-empty image and encoded, and the scaled height is at least one pixel.
\<close>

theorem resizeAndCompressImage_bounds_width:
  "(\<forall>out w h. resizeAndCompressImage file maxWidth = Inr out \<and> decoded file = Some (w, h) \<longrightarrow>
      pixelWidth out = min w maxWidth \<and> pixelWidth out \<le> maxWidth \<and>
      (w \<le> maxWidth \<longrightarrow> pixelWidth out = w \<and> pixelHeight out = h) \<and>
      (maxWidth < w \<longrightarrow>
         pixelWidth out = maxWidth \<and> pixelHeight out = h * maxWidth div w \<and>
         pixelHeight out * w \<le> h * pixelWidth out \<and>
         h * pixelWidth out < (pixelHeight out + 1) * w) \<and>
      pixelHeight out \<le> h \<and>
      mimeType out = ''image/jpeg'' \<and> quality out = 0.7) \<and>
   (\<forall>w h. readable file \<and> decoded file = Some (w, h) \<and> encodes file \<and> 0 < w \<and> 0 < h \<and>
      (maxWidth < w \<longrightarrow> 0 < maxWidth \<and> w \<le> h * maxWidth) \<longrightarrow>
      (\<exists>out. resizeAndCompressImage file maxWidth = Inr out))"
proof (rule conjI)
  show "\<forall>out w h. resizeAndCompressImage file maxWidth = Inr out \<and> decoded file = Some (w, h) \<longrightarrow>
      pixelWidth out = min w maxWidth \<and> pixelWidth out \<le> maxWidth \<and>
      (w \<le> maxWidth \<longrightarrow> pixelWidth out = w \<and> pixelHeight out = h) \<and>
      (maxWidth < w \<longrightarrow>
         pixelWidth out = maxWidth \<and> pixelHeight out = h * maxWidth div w \<and>
         pixelHeight out * w \<le> h * pixelWidth out \<and>
         h * pixelWidth out < (pixelHeight out + 1) * w) \<and>
      pixelHeight out \<le> h \<and>
      mimeType out = ''image/jpeg'' \<and> quality out = 0.7"
  proof (intro allI impI)
    fix out w h
    assume "resizeAndCompressImage file maxWidth = Inr out \<and> decoded file = Some (w, h)"
    then have r: "resizeAndCompressImage file maxWidth = Inr out" and d: "decoded file = Some (w, h)"
      by simp_all
    show "pixelWidth out = min w maxWidth \<and> pixelWidth out \<le> maxWidth \<and>
      (w \<le> maxWidth \<longrightarrow> pixelWidth out = w \<and> pixelHeight out = h) \<and>
      (maxWidth < w \<longrightarrow>
         pixelWidth out = maxWidth \<and> pixelHeight out = h * maxWidth div w \<and>
         pixelHeight out * w \<le> h * pixelWidth out \<and>
         h * pixelWidth out < (pixelHeight out + 1) * w) \<and>
      pixelHeight out \<le> h \<and>
      mimeType out = ''image/jpeg'' \<and> quality out = 0.7"
      by (rule resizeAndCompressImage_dimensions [OF r d])
  qed
  show "\<forall>w h. readable file \<and> decoded file = Some (w, h) \<and> encodes file \<and> 0 < w \<and> 0 < h \<and>
      (maxWidth < w \<longrightarrow> 0 < maxWidth \<and> w \<le> h * maxWidth) \<longrightarrow>
      (\<exists>out. resizeAndCompressImage file maxWidth = Inr out)"
  proof (intro allI impI)
    fix w h
    assume a: "readable file \<and> decoded file = Some (w, h) \<and> encodes file \<and> 0 < w \<and> 0 < h \<and>
      (maxWidth < w \<longrightarrow> 0 < maxWidth \<and> w \<le> h * maxWidth)"
    show "\<exists>out. resizeAndCompressImage file maxWidth = Inr out"
    proof (rule resizeAndCompressImage_succeeds)
      from a show "readable file" "decoded file = Some (w, h)" "encodes file" "0 < w" "0 < h"
        "maxWidth < w \<longrightarrow> 0 < maxWidth \<and> w \<le> h * maxWidth"
        by simp_all
    qed
  qed
qed


theorem resizeAndCompressImage_bounds_width_witness:
  "resizeAndCompressImage (demoFile 1600 1201) 800 =
     Inr \<lparr>pixelWidth = 800, pixelHeight = 600, mimeType = ''image/jpeg'', quality = 0.7\<rparr> \<and>
   decoded (demoFile 1600 1201) = Some (1600, 1201) \<and>
   pixelWidth \<lparr>pixelWidth = 800, pixelHeight = 600, mimeType = ''image/jpeg'', quality = 0.7\<rparr> \<le> (800 :: nat) \<and>
   readable (demoFile 640 480) \<and> decoded (demoFile 640 480) = Some (640, 480) \<and>
   encodes (demoFile 640 480) \<and>
   resizeAndCompressImage (demoFile 640 480) 800 =
     Inr \<lparr>pixelWidth = 640, pixelHeight = 480, mimeType = ''image/jpeg'', quality = 0.7\<rparr>"
proof -
  note dims = resizeAndCompressImage_bounds_width [THEN conjunct1, rule_format]
  note succ = resizeAndCompressImage_bounds_width [THEN conjunct2, rule_format]
  have d1: "decoded (demoFile 1600 1201) = Some (1600, 1201)"
    by (simp add: demoFile_def)
  have r: "resizeAndCompressImage (demoFile 1600 1201) 800 =
     Inr \<lparr>pixelWidth = 800, pixelHeight = 600, mimeType = ''image/jpeg'', quality = 0.7\<rparr>"
    by (simp add: resizeAndCompressImage_nat demoFile_def)
  from dims [OF conjI [OF r d1]] have 1:
    "pixelWidth \<lparr>pixelWidth = 800, pixelHeight = 600, mimeType = ''image/jpeg'', quality = 0.7\<rparr> \<le> (800 :: nat)"
    by (rule conjunct2 [THEN conjunct1])
  have f: "readable (demoFile 640 480) \<and> decoded (demoFile 640 480) = Some (640, 480) \<and>
      encodes (demoFile 640 480) \<and> (0 :: nat) < 640 \<and> (0 :: nat) < 480 \<and>
      ((800 :: nat) < 640 \<longrightarrow> (0 :: nat) < 800 \<and> (640 :: nat) \<le> 480 * 800)"
    by (simp add: demoFile_def)
  from succ [OF f] obtain out where o: "resizeAndCompressImage (demoFile 640 480) 800 = Inr out" ..
  from f have d2: "decoded (demoFile 640 480) = Some (640, 480)" by simp
  from dims [OF conjI [OF o d2]] have "pixelWidth out = 640 \<and> pixelHeight out = 480 \<and>
      mimeType out = ''image/jpeg'' \<and> quality out = 0.7"
    by simp
  then have "out = \<lparr>pixelWidth = 640, pixelHeight = 480, mimeType = ''image/jpeg'', quality = 0.7\<rparr>"
    by (cases out) simp
  with o have 2: "resizeAndCompressImage (demoFile 640 480) 800 =
     Inr \<lparr>pixelWidth = 640, pixelHeight = 480, mimeType = ''image/jpeg'', quality = 0.7\<rparr>"
    by simp
  from f r d1 1 2 show ?thesis by simp
qed

section \<open>Creating an entry\<close>




























end
